theory Spec2Isabelle
  imports Complex_Main
begin

section \<open>Python strings\<close>

text \<open>
  A Python \<open>str\<close> is modelled as a \<^typ>\<open>string\<close>, one \<^typ>\<open>char\<close> per character: the
  texts covered are those of code points 0 to 255. On these \<open>lower\<close> and white space are
  Python's. \<open>upper\<close> is Python's but for three characters whose upper-case form is not a
  character of the range (\<open>0xB5\<close> and \<open>0xFF\<close>, mapped beyond it, and \<open>0xDF\<close>, mapped to
  the two letters \<open>SS\<close>); they are left as they are, which changes no occurrence of a
  word without \<open>SS\<close> in the upper-cased text.
\<close>

definition ascii_uppercase :: string where
  "ascii_uppercase = ''ABCDEFGHIJKLMNOPQRSTUVWXYZ''"

definition ascii_lowercase :: string where
  "ascii_lowercase = ''abcdefghijklmnopqrstuvwxyz''"

definition digits :: string where
  "digits = ''0123456789''"

text \<open>The other cased letters of the range: \<open>0xC0\<close> to \<open>0xDE\<close> without the
  multiplication sign \<open>0xD7\<close>, and \<open>0xE0\<close> to \<open>0xFE\<close> without the division sign
  \<open>0xF7\<close>.\<close>

definition latin1_uppercase :: string where
  "latin1_uppercase =
     [CHR 0xC0, CHR 0xC1, CHR 0xC2, CHR 0xC3, CHR 0xC4, CHR 0xC5, CHR 0xC6, CHR 0xC7,
      CHR 0xC8, CHR 0xC9, CHR 0xCA, CHR 0xCB, CHR 0xCC, CHR 0xCD, CHR 0xCE, CHR 0xCF,
      CHR 0xD0, CHR 0xD1, CHR 0xD2, CHR 0xD3, CHR 0xD4, CHR 0xD5, CHR 0xD6,
      CHR 0xD8, CHR 0xD9, CHR 0xDA, CHR 0xDB, CHR 0xDC, CHR 0xDD, CHR 0xDE]"

definition latin1_lowercase :: string where
  "latin1_lowercase =
     [CHR 0xE0, CHR 0xE1, CHR 0xE2, CHR 0xE3, CHR 0xE4, CHR 0xE5, CHR 0xE6, CHR 0xE7,
      CHR 0xE8, CHR 0xE9, CHR 0xEA, CHR 0xEB, CHR 0xEC, CHR 0xED, CHR 0xEE, CHR 0xEF,
      CHR 0xF0, CHR 0xF1, CHR 0xF2, CHR 0xF3, CHR 0xF4, CHR 0xF5, CHR 0xF6,
      CHR 0xF8, CHR 0xF9, CHR 0xFA, CHR 0xFB, CHR 0xFC, CHR 0xFD, CHR 0xFE]"

definition lower_char :: "char \<Rightarrow> char" where
  "lower_char c =
     (case map_of (zip (ascii_uppercase @ latin1_uppercase)
                       (ascii_lowercase @ latin1_lowercase)) c of
        Some d \<Rightarrow> d | None \<Rightarrow> c)"

definition upper_char :: "char \<Rightarrow> char" where
  "upper_char c =
     (case map_of (zip (ascii_lowercase @ latin1_lowercase)
                       (ascii_uppercase @ latin1_uppercase)) c of
        Some d \<Rightarrow> d | None \<Rightarrow> c)"

text \<open>\<open>s.lower()\<close> and \<open>s.upper()\<close>.\<close>

definition lower :: "string \<Rightarrow> string" where
  "lower s = map lower_char s"

definition upper :: "string \<Rightarrow> string" where
  "upper s = map upper_char s"

text \<open>The characters \<open>str.isspace\<close> accepts: tab, line feed, vertical tab, form feed,
  carriage return, the four separators \<open>0x1C\<close> to \<open>0x1F\<close>, space, next line \<open>0x85\<close>
  and no-break space \<open>0xA0\<close>.\<close>

definition whitespace :: string where
  "whitespace = [CHR 0x09, CHR 0x0A, CHR 0x0B, CHR 0x0C, CHR 0x0D,
                 CHR 0x1C, CHR 0x1D, CHR 0x1E, CHR 0x1F, CHR '' '', CHR 0x85, CHR 0xA0]"

definition isspace :: "char \<Rightarrow> bool" where
  "isspace c = (c \<in> set whitespace)"

text \<open>\<open>s.strip()\<close>: white space removed at both ends.\<close>

definition strip :: "string \<Rightarrow> string" where
  "strip s = rev (dropWhile isspace (rev (dropWhile isspace s)))"

text \<open>\<open>s.split()\<close>: the maximal runs of characters that are not white space.\<close>

fun split_from :: "string \<Rightarrow> string \<Rightarrow> string list" where
  "split_from cur [] = (if cur = [] then [] else [cur])"
| "split_from cur (c # cs) =
     (if isspace c then (if cur = [] then split_from [] cs else cur # split_from [] cs)
      else split_from (cur @ [c]) cs)"

definition split :: "string \<Rightarrow> string list" where
  "split s = split_from [] s"

text \<open>\<open>s.startswith(w)\<close>, and \<open>w in s\<close> for two strings.\<close>

fun startswith :: "string \<Rightarrow> string \<Rightarrow> bool" where
  "startswith s [] = True"
| "startswith [] (c # w) = False"
| "startswith (d # s) (c # w) = (d = c \<and> startswith s w)"

fun str_in :: "string \<Rightarrow> string \<Rightarrow> bool" where
  "str_in w [] = (w = [])"
| "str_in w (c # s) = (startswith (c # s) w \<or> str_in w s)"

text \<open>\<open>sep.join(xs)\<close>.\<close>

fun join :: "string \<Rightarrow> string list \<Rightarrow> string" where
  "join sep [] = []"
| "join sep [x] = x"
| "join sep (x # y # ys) = x @ sep @ join sep (y # ys)"


section \<open>Regular expressions with backtracking\<close>

text \<open>
  The fragment of \<open>re\<close> that the three claim patterns use: character classes, literal
  strings, sequence, ordered alternation and the greedy star. \<open>rmatch r s\<close> lists what
  is left of \<open>s\<close> after each way of matching \<open>r\<close> at its start, in the order in which
  a backtracking matcher tries them; the match it reports is the first.
\<close>

datatype cclass = OneOf string | NoneOf string

fun cmatch :: "cclass \<Rightarrow> char \<Rightarrow> bool" where
  "cmatch (OneOf cs) c = (c \<in> set cs)"
| "cmatch (NoneOf cs) c = (c \<notin> set cs)"

datatype regex =
    Chr cclass
  | Str string
  | Seq regex regex
  | Alt regex regex
  | Star regex

fun rmatch :: "regex \<Rightarrow> string \<Rightarrow> string list" where
  "rmatch (Chr cl) s = (case s of [] \<Rightarrow> [] | c # t \<Rightarrow> if cmatch cl c then [t] else [])"
| "rmatch (Str w) s = (if startswith s w then [drop (length w) s] else [])"
| "rmatch (Seq r1 r2) s = concat (map (rmatch r2) (rmatch r1 s))"
| "rmatch (Alt r1 r2) s = rmatch r1 s @ rmatch r2 s"
| "rmatch (Star r) s =
     concat (map (rmatch (Star r)) (filter (\<lambda>t. length t < length s) (rmatch r s))) @ [s]"

declare rmatch.simps(5) [simp del]

text \<open>\<open>r+\<close>, \<open>r?\<close>, a sequence of several parts and an alternation of literal words.\<close>

definition Plus :: "regex \<Rightarrow> regex" where
  "Plus r = Seq r (Star r)"

definition Opt :: "regex \<Rightarrow> regex" where
  "Opt r = Alt r (Str [])"

fun seqs :: "regex list \<Rightarrow> regex" where
  "seqs [] = Str []"
| "seqs [r] = r"
| "seqs (r # rs) = Seq r (seqs rs)"

fun alts :: "regex list \<Rightarrow> regex" where
  "alts [] = Chr (OneOf [])"
| "alts [r] = r"
| "alts (r # rs) = Alt r (alts rs)"

text \<open>
  \<open>re.findall(pattern, text)\<close> for a pattern without capturing groups: the matched
  substrings from left to right, each search starting where the last match ended. A match
  of the empty string is recorded and the search moves on by one character; no claim
  pattern has one, since each starts with \<open>[A-Z]\<close>.
\<close>

function findall :: "regex \<Rightarrow> string \<Rightarrow> string list" where
  "findall r s =
     (case rmatch r s of
        [] \<Rightarrow> (case s of [] \<Rightarrow> [] | c # t \<Rightarrow> findall r t)
      | rest # others \<Rightarrow>
          if length rest < length s
          then take (length s - length rest) s # findall r rest
          else [] # (case s of [] \<Rightarrow> [] | c # t \<Rightarrow> findall r t))"
  by pat_completeness auto
termination
  by (relation "measure (\<lambda>(r, s). length s)") auto

declare findall.simps [simp del]


section \<open>Claim extraction\<close>

definition sentence_start :: regex where
  "sentence_start = Chr (OneOf ascii_uppercase)"

definition sentence_body :: regex where
  "sentence_body = Star (Chr (NoneOf ''.!?''))"

definition sentence_end :: regex where
  "sentence_end = Chr (OneOf ''.!?'')"

text \<open>The cue groups of the three patterns, alternatives in the order of the source.\<close>

definition verb_cue :: regex where
  "verb_cue = alts [Str ''is'', Str ''are'', Str ''was'', Str ''were'', Str ''has'',
                    Str ''have'', Str ''will'', Str ''can'', Str ''cannot'',
                    Seq (Str ''cost'') (Opt (Str ''s'')),
                    Seq (Str ''contain'') (Opt (Str ''s'')),
                    Seq (Str ''cause'') (Opt (Str ''s''))]"

definition quantity_cue :: regex where
  "quantity_cue = alts [Plus (Chr (OneOf digits)), Str ''percent'', Str ''%'',
                        Str ''million'', Str ''billion'', Str ''thousand'']"

definition attribution_cue :: regex where
  "attribution_cue = alts [Str ''studies show'', Str ''research shows'', Str ''according to'',
                           Str ''scientists'', Str ''doctors'']"

definition claim_pattern :: "regex \<Rightarrow> regex" where
  "claim_pattern cue = seqs [sentence_start, sentence_body, cue, sentence_body, sentence_end]"

definition claim_patterns :: "regex list" where
  "claim_patterns = [claim_pattern verb_cue, claim_pattern quantity_cue,
                     claim_pattern attribution_cue]"

text \<open>\<open>extract_claims\<close>: the matches of the three patterns one after the other, the
  stripped text when there is none and it is longer than 10 characters, and of that the
  first three.\<close>

definition extract_claims :: "string \<Rightarrow> string list" where
  "extract_claims text =
     (let claims = concat (map (\<lambda>pattern. findall pattern text) claim_patterns);
          claims = (if claims = [] \<and> length (strip text) > 10 then [strip text] else claims)
      in take 3 claims)"


section \<open>Source retrieval from the static table\<close>

record source_record =
  title :: string
  url :: string
  snippet :: string

text \<open>\<open>demo_results\<close>, a dict literal: its items in insertion order, which is the
  order in which the loop of \<open>search_web\<close> visits them.\<close>

definition iphone_results :: "source_record list" where
  "iphone_results =
     [\<lparr>title = ''Apple iPhone 15 Pro Features Titanium Design'',
       url = ''https://apple.com/newsroom'',
       snippet = ''The iPhone 15 Pro introduces a titanium design that's lighter yet stronger than steel.''\<rparr>,
      \<lparr>title = ''iPhone 15 Pro Review: Titanium Makes a Difference'',
       url = ''https://techcrunch.com'',
       snippet = ''Apple's use of Grade 5 titanium in the iPhone 15 Pro results in the lightest Pro model ever.''\<rparr>]"

definition water_results :: "source_record list" where
  "water_results =
     [\<lparr>title = ''Mayo Clinic: How much water should you drink daily?'',
       url = ''https://mayoclinic.org'',
       snippet = ''The 8 glasses rule is a good starting point but individual needs vary based on activity, climate, and health.''\<rparr>,
      \<lparr>title = ''Harvard Health: The importance of staying hydrated'',
       url = ''https://health.harvard.edu'',
       snippet = ''While 8 glasses is commonly cited, actual fluid needs depend on many factors including food intake.''\<rparr>]"

definition great_wall_results :: "source_record list" where
  "great_wall_results =
     [\<lparr>title = ''NASA: Great Wall of China Not Visible from Space'',
       url = ''https://nasa.gov'',
       snippet = ''Contrary to popular belief, the Great Wall of China is not visible from space with the naked eye.''\<rparr>,
      \<lparr>title = ''Snopes: Can You See the Great Wall from Space?'',
       url = ''https://snopes.com'',
       snippet = ''This is a persistent myth. The wall is too narrow to be seen from space without aid.''\<rparr>]"

definition demo_results :: "(string \<times> source_record list) list" where
  "demo_results =
     [(''iphone 15 titanium'', iphone_results),
      (''water 8 glasses daily'', water_results),
      (''great wall china space'', great_wall_results)]"

text \<open>\<open>any(word in query_lower for word in key.split())\<close>.\<close>

definition key_matches :: "string \<Rightarrow> string \<Rightarrow> bool" where
  "key_matches query_lower key = list_ex (\<lambda>word. str_in word query_lower) (split key)"

definition placeholder :: "string \<Rightarrow> source_record" where
  "placeholder query =
     \<lparr>title = ''Search results for: '' @ query,
      url = ''https://example.com'',
      snippet = ''Multiple sources found. Verification in progress...''\<rparr>"

text \<open>\<open>search_web(query, num_results)\<close>: the results of the first key one of whose words
  is in the lower-cased query, and the placeholder when the loop ends without one.\<close>

definition search_web :: "string \<Rightarrow> nat \<Rightarrow> source_record list" where
  "search_web query num_results =
     (let query_lower = lower query
      in case find (\<lambda>(key, results). key_matches query_lower key) demo_results of
           Some (key, results) \<Rightarrow> results
         | None \<Rightarrow> [placeholder query])"


section \<open>The heuristic analyzer\<close>

text \<open>
  A confidence is a Python float. It is modelled as a real number: the rounding of binary
  floating point is left out, so \<open>0.7 + 1 * 0.1\<close> is \<open>0.8\<close> here.
\<close>

definition positive_words :: "string list" where
  "positive_words = [''confirmed'', ''verified'', ''proven'', ''research shows'',
                     ''studies indicate'', ''according to experts'']"

definition negative_words :: "string list" where
  "negative_words = [''myth'', ''false'', ''debunked'', ''not true'', ''contrary to belief'',
                     ''misconception'']"

text \<open>\<open>' '.join([r['snippet'] for r in search_results]).lower()\<close>.\<close>

definition snippets_lower :: "source_record list \<Rightarrow> string" where
  "snippets_lower search_results = lower (join '' '' (map snippet search_results))"

text \<open>\<open>sum(1 for word in words if word in text)\<close>.\<close>

definition score :: "string list \<Rightarrow> string \<Rightarrow> nat" where
  "score words text = length (filter (\<lambda>word. str_in word text) words)"

definition analyze_claim_credibility ::
    "string \<Rightarrow> source_record list \<Rightarrow> string \<times> real \<times> string" where
  "analyze_claim_credibility claim search_results =
     (let claim_lower = lower claim;
          positive_score = score positive_words (snippets_lower search_results);
          negative_score = score negative_words (snippets_lower search_results)
      in if negative_score > positive_score
         then (''FALSE'', max 0.7 (min 0.95 (0.7 + real negative_score * 0.1)), ''red'')
         else if positive_score > negative_score
         then (''VERIFIED'', max 0.6 (min 0.9 (0.6 + real positive_score * 0.1)), ''green'')
         else (''DISPUTED'', 0.5, ''orange''))"

section \<open>The language-model tier\<close>

text \<open>
  A Python float is a finite number, an infinity or not-a-number. The finite ones are
  modelled as real numbers, as above.
\<close>

datatype pyfloat = Finite real | PosInf | NegInf | NaN

text \<open>The values \<open>json.loads\<close> returns; an object as the items of its dict, its keys
  distinct. A number without fraction or exponent is an \<open>int\<close>, any other a float
  (\<open>1e400\<close> is read as infinity, and \<open>NaN\<close> and \<open>Infinity\<close> are accepted).\<close>

datatype json =
    JNull
  | JBool bool
  | JInt int
  | JFloat pyfloat
  | JStr string
  | JArr "json list"
  | JObj "(string \<times> json) list"

text \<open>
  An exception is either raised by a call that leaves the program (\<open>Raised\<close>, with the
  text of \<open>str(e)\<close>) or is one of the interpreter's. \<open>st.warning\<close> is the one effect
  of the functions below: each returns the warnings it shows, in order, next to its value.
\<close>

datatype exn =
    Raised string
  | JSONDecodeError
  | RecursionError
  | AttributeError
  | TypeError
  | ValueError
  | OverflowError

datatype warning =
    ExtractionFailed exn
  | AnalysisFailed exn
  | SearchFailed exn

text \<open>\<open>openai.api_key\<close> is \<open>None\<close> or a string; \<open>if not openai.api_key\<close> tests it.\<close>

definition truthy :: "string option \<Rightarrow> bool" where
  "truthy api_key = (case api_key of None \<Rightarrow> False | Some k \<Rightarrow> k \<noteq> [])"

text \<open>
  \<open>extract_claims_ai\<close>. The argument \<open>completion\<close> is what
  \<open>openai.ChatCompletion.create(...)\<close> and the reading of
  \<open>response.choices[0].message.content\<close> come to: the exception raised, or the content.
  \<open>json_loads\<close> stands for \<open>json.loads\<close>: the exception it raises
  (\<open>JSONDecodeError\<close> on a text that is not JSON, \<open>RecursionError\<close> on one nested too
  deep), or the value. The inner \<open>except:\<close> is bare and takes every exception. The claims
  are Python values: whatever the parsed list holds, or strings.
\<close>

definition extract_claims_ai ::
    "string option \<Rightarrow> exn + string \<Rightarrow> (string \<Rightarrow> exn + json) \<Rightarrow> string
       \<Rightarrow> json list \<times> warning list" where
  "extract_claims_ai api_key completion json_loads text =
     (if \<not> truthy api_key then (map JStr (extract_claims text), [])
      else case completion of
        Inl e \<Rightarrow> (map JStr (extract_claims text), [ExtractionFailed e])
      | Inr content \<Rightarrow>
          (let claims_text = strip content
           in case json_loads claims_text of
                Inr claims \<Rightarrow>
                  (case claims of JArr xs \<Rightarrow> (xs, []) | _ \<Rightarrow> ([JStr claims_text], []))
              | Inl e \<Rightarrow>
                  (if claims_text \<noteq> [] then ([JStr claims_text], []) else ([JStr text], []))))"

text \<open>The two shapes of tuple that the analyzers return.\<close>

datatype analysis =
    Tuple3 string pyfloat string
  | Tuple5 json pyfloat string json json

definition heuristic_analysis :: "string \<Rightarrow> source_record list \<Rightarrow> analysis" where
  "heuristic_analysis claim search_results =
     (case analyze_claim_credibility claim search_results of
        (verdict, confidence, color) \<Rightarrow> Tuple3 verdict (Finite confidence) color)"

text \<open>\<open>result.get(key, default)\<close> on a dict.\<close>

definition dict_get :: "(string \<times> json) list \<Rightarrow> string \<Rightarrow> json \<Rightarrow> json" where
  "dict_get d k dflt = (case map_of d k of Some v \<Rightarrow> v | None \<Rightarrow> dflt)"

text \<open>
  \<open>float(x)\<close>. An \<open>int\<close> that rounds beyond the largest double, that is one of
  magnitude \<open>2^1024 - 2^970\<close> or more, raises \<open>OverflowError\<close>. \<open>float_of_str\<close> stands
  for the parsing of a string, \<open>None\<close> when it raises \<open>ValueError\<close>.
\<close>

fun py_float :: "(string \<Rightarrow> pyfloat option) \<Rightarrow> json \<Rightarrow> exn + pyfloat" where
  "py_float float_of_str (JFloat x) = Inr x"
| "py_float float_of_str (JInt n) =
     (if \<bar>n\<bar> \<ge> 2 ^ 1024 - 2 ^ 970 then Inl OverflowError else Inr (Finite (of_int n)))"
| "py_float float_of_str (JBool b) = Inr (Finite (if b then 1 else 0))"
| "py_float float_of_str (JStr s) =
     (case float_of_str s of Some x \<Rightarrow> Inr x | None \<Rightarrow> Inl ValueError)"
| "py_float float_of_str JNull = Inl TypeError"
| "py_float float_of_str (JArr xs) = Inl TypeError"
| "py_float float_of_str (JObj d) = Inl TypeError"

definition color_map :: "(string \<times> string) list" where
  "color_map = [(''VERIFIED'', ''green''), (''DISPUTED'', ''orange''), (''FALSE'', ''red''),
                (''INSUFFICIENT'', ''orange'')]"

text \<open>\<open>color_map.get(verdict, 'orange')\<close>: a list or a dict cannot be hashed, and
  only a string equals a key.\<close>

fun color_of :: "json \<Rightarrow> exn + string" where
  "color_of (JStr v) = Inr (case map_of color_map v of Some c \<Rightarrow> c | None \<Rightarrow> ''orange'')"
| "color_of (JArr xs) = Inl TypeError"
| "color_of (JObj d) = Inl TypeError"
| "color_of JNull = Inr ''orange''"
| "color_of (JBool b) = Inr ''orange''"
| "color_of (JInt n) = Inr ''orange''"
| "color_of (JFloat x) = Inr ''orange''"

text \<open>The handler of \<open>json.JSONDecodeError\<close>.\<close>

definition verdict_from_text :: "string \<Rightarrow> analysis" where
  "verdict_from_text result_text =
     (if str_in ''VERIFIED'' (upper result_text)
      then Tuple5 (JStr ''VERIFIED'') (Finite 0.8) ''green'' (JStr result_text) (JStr [])
      else if str_in ''FALSE'' (upper result_text)
      then Tuple5 (JStr ''FALSE'') (Finite 0.8) ''red'' (JStr result_text) (JStr [])
      else Tuple5 (JStr ''DISPUTED'') (Finite 0.6) ''orange'' (JStr result_text) (JStr []))"

text \<open>The body of the inner \<open>try\<close> once \<open>json.loads\<close> has returned \<open>result\<close>; a
  value that is not a dict has no \<open>get\<close>.\<close>

definition verdict_from_json :: "(string \<Rightarrow> pyfloat option) \<Rightarrow> json \<Rightarrow> exn + analysis" where
  "verdict_from_json float_of_str result =
     (case result of
        JObj d \<Rightarrow>
          (let verdict = dict_get d ''verdict'' (JStr ''INSUFFICIENT'')
           in case py_float float_of_str (dict_get d ''confidence'' (JFloat (Finite 0.5))) of
                Inl e \<Rightarrow> Inl e
              | Inr confidence \<Rightarrow>
                  (let reasoning = dict_get d ''reasoning'' (JStr ''Analysis completed'');
                       evidence = dict_get d ''key_evidence'' (JStr [])
                   in case color_of verdict of
                        Inl e \<Rightarrow> Inl e
                      | Inr color \<Rightarrow> Inr (Tuple5 verdict confidence color reasoning evidence)))
      | _ \<Rightarrow> Inl AttributeError)"

text \<open>
  \<open>analyze_claim_with_ai\<close>, with \<open>completion\<close> and \<open>json_loads\<close> as above. The inner
  handler takes \<open>JSONDecodeError\<close> alone: every other exception of the inner \<open>try\<close>
  reaches the outer handler, which warns and falls back.
\<close>

definition analyze_claim_with_ai ::
    "string option \<Rightarrow> exn + string \<Rightarrow> (string \<Rightarrow> exn + json) \<Rightarrow> (string \<Rightarrow> pyfloat option)
       \<Rightarrow> string \<Rightarrow> source_record list \<Rightarrow> analysis \<times> warning list" where
  "analyze_claim_with_ai api_key completion json_loads float_of_str claim search_results =
     (if \<not> truthy api_key then (heuristic_analysis claim search_results, [])
      else case completion of
        Inl e \<Rightarrow> (heuristic_analysis claim search_results, [AnalysisFailed e])
      | Inr content \<Rightarrow>
          (let result_text = strip content
           in case json_loads result_text of
                Inl JSONDecodeError \<Rightarrow> (verdict_from_text result_text, [])
              | Inl e \<Rightarrow> (heuristic_analysis claim search_results, [AnalysisFailed e])
              | Inr result \<Rightarrow>
                  (case verdict_from_json float_of_str result of
                     Inr a \<Rightarrow> (a, [])
                   | Inl e \<Rightarrow> (heuristic_analysis claim search_results, [AnalysisFailed e]))))"


section \<open>The orchestrator\<close>

text \<open>
  \<open>search_web_real\<close>. The argument \<open>live\<close> is what the request to the search endpoint
  and the building of \<open>results\<close> from its answer come to: the exception raised, or the
  list built.
\<close>

definition search_web_real ::
    "exn + source_record list \<Rightarrow> string \<Rightarrow> nat \<Rightarrow> source_record list \<times> warning list" where
  "search_web_real live query num_results =
     (case live of
        Inl e \<Rightarrow> (search_web query num_results, [SearchFailed e])
      | Inr results \<Rightarrow>
          if results \<noteq> [] then (results, []) else (search_web query num_results, []))"

record fact_check =
  fc_claim :: string
  fc_verdict :: json
  fc_confidence :: pyfloat
  fc_sources :: "source_record list"
  fc_color :: string
  fc_reasoning :: json
  fc_evidence :: json
  fc_timestamp :: string
  fc_ai_powered :: bool

text \<open>
  \<open>fact_check_claim\<close>; \<open>now\<close> is the formatted time. With a key the tuple of
  \<open>analyze_claim_with_ai\<close> is unpacked into five names, which raises \<open>ValueError\<close> on a
  tuple of three.
\<close>

definition fact_check_claim ::
    "string option \<Rightarrow> exn + source_record list \<Rightarrow> exn + string \<Rightarrow> (string \<Rightarrow> exn + json)
       \<Rightarrow> (string \<Rightarrow> pyfloat option) \<Rightarrow> string \<Rightarrow> string
       \<Rightarrow> (exn + fact_check) \<times> warning list" where
  "fact_check_claim api_key live completion json_loads float_of_str now claim =
     (case search_web_real live claim 5 of
        (search_results, ws) \<Rightarrow>
          if truthy api_key
          then (case analyze_claim_with_ai api_key completion json_loads float_of_str
                       claim search_results of
                  (Tuple5 verdict confidence color reasoning evidence, ws') \<Rightarrow>
                    (Inr \<lparr>fc_claim = claim, fc_verdict = verdict, fc_confidence = confidence,
                          fc_sources = search_results, fc_color = color,
                          fc_reasoning = reasoning, fc_evidence = evidence,
                          fc_timestamp = now, fc_ai_powered = True\<rparr>, ws @ ws')
                | (Tuple3 verdict confidence color, ws') \<Rightarrow> (Inl ValueError, ws @ ws'))
          else (case analyze_claim_credibility claim search_results of
                  (verdict, confidence, color) \<Rightarrow>
                    (Inr \<lparr>fc_claim = claim, fc_verdict = JStr verdict,
                          fc_confidence = Finite confidence, fc_sources = search_results,
                          fc_color = color,
                          fc_reasoning = JStr ''Analysis based on keyword matching'',
                          fc_evidence = JStr [], fc_timestamp = now,
                          fc_ai_powered = False\<rparr>, ws)))"


section \<open>What the specification says, in its own words\<close>

text \<open>
  \<open>clamp(x, lo, hi)\<close>, and the number of cue phrases of a list that occur in a text at
  least once, each phrase counted once.
\<close>

definition clamp :: "real \<Rightarrow> real \<Rightarrow> real \<Rightarrow> real" where
  "clamp x lo hi = max lo (min hi x)"

definition cues_present :: "string list \<Rightarrow> string \<Rightarrow> nat" where
  "cues_present words text = card {w \<in> set words. \<exists>u v. text = u @ w @ v}"

text \<open>
  The reading of "counts occurrences of the cue phrases" by its words: every position of
  the lower-cased text of the snippets at which a phrase starts counts.
  \<open>claimed_analysis\<close> is the verdict and confidence that this reading gives, where the
  two counts differ.
\<close>

fun tails :: "string \<Rightarrow> string list" where
  "tails [] = [[]]"
| "tails (c # s) = (c # s) # tails s"

definition count_occurrences :: "string \<Rightarrow> string \<Rightarrow> nat" where
  "count_occurrences w s = length (filter (\<lambda>t. startswith t w) (tails s))"

definition occurrence_count :: "string list \<Rightarrow> string \<Rightarrow> nat" where
  "occurrence_count words text = sum_list (map (\<lambda>w. count_occurrences w text) words)"

definition claimed_analysis :: "source_record list \<Rightarrow> (string \<times> real) option" where
  "claimed_analysis search_results =
     (let text = snippets_lower search_results;
          positiveCount = occurrence_count positive_words text;
          negativeCount = occurrence_count negative_words text
      in if negativeCount > positiveCount
         then Some (''FALSE'', clamp (0.7 + 0.1 * real negativeCount) 0.7 0.95)
         else if positiveCount > negativeCount
         then Some (''VERIFIED'', clamp (0.6 + 0.1 * real positiveCount) 0.6 0.9)
         else None)"

text \<open>A substring of the text equals the word up to the case of its letters.\<close>

definition occurs_ignoring_case :: "string \<Rightarrow> string \<Rightarrow> bool" where
  "occurs_ignoring_case w s = (\<exists>u m v. s = u @ m @ v \<and> upper m = upper w)"

text \<open>
  The verdict read from a reply that did not parse, by the words of the specification:
  searched in the reply for the two words, the reply itself as the reasoning.
\<close>

definition claimed_text_verdict :: "string \<Rightarrow> analysis" where
  "claimed_text_verdict response =
     (if occurs_ignoring_case ''VERIFIED'' response
      then Tuple5 (JStr ''VERIFIED'') (Finite 0.8) ''green'' (JStr response) (JStr [])
      else if occurs_ignoring_case ''FALSE'' response
      then Tuple5 (JStr ''FALSE'') (Finite 0.8) ''red'' (JStr response) (JStr [])
      else Tuple5 (JStr ''DISPUTED'') (Finite 0.6) ''orange'' (JStr response) (JStr []))"

text \<open>Inputs used as examples below.\<close>

definition four_claims_reply :: string where
  \<open>four_claims_reply = ''["Cats are mammals", "Water is wet", "Fire is hot", "Ice is cold"]''\<close>

definition four_claims_parsed :: json where
  "four_claims_parsed =
     JArr [JStr ''Cats are mammals'', JStr ''Water is wet'', JStr ''Fire is hot'',
           JStr ''Ice is cold'']"

definition mixed_source :: source_record where
  "mixed_source = \<lparr>title = ''Review'', url = ''https://example.org'',
                    snippet = ''Confirmed by some, called a myth by others.''\<rparr>"

definition tied_occurrences :: source_record where
  "tied_occurrences = \<lparr>title = ''Forum'', url = ''https://example.org'',
                        snippet = ''A myth, an old myth: confirmed and verified.''\<rparr>"

definition repeated_myth :: source_record where
  "repeated_myth = \<lparr>title = ''Blog'', url = ''https://example.org'',
                     snippet = ''It is a myth, an old myth.''\<rparr>"

section \<open>Strings and matching\<close>

lemma startswith_iff: "startswith s w \<longleftrightarrow> (\<exists>v. s = w @ v)"
  by (induction s w rule: startswith.induct) auto

lemma str_in_iff: "str_in w s \<longleftrightarrow> (\<exists>u v. s = u @ w @ v)"
proof (induction s)
  case Nil
  show ?case by auto
next
  case (Cons c s)
  show ?case
  proof
    assume "str_in w (c # s)"
    then consider "startswith (c # s) w" | "str_in w s" by auto
    then show "\<exists>u v. c # s = u @ w @ v"
    proof cases
      case 1
      then obtain v where "c # s = w @ v" by (auto simp: startswith_iff)
      then have "c # s = [] @ w @ v" by simp
      then show ?thesis by blast
    next
      case 2
      then obtain u v where "s = u @ w @ v" using Cons.IH by auto
      then have "c # s = (c # u) @ w @ v" by simp
      then show ?thesis by blast
    qed
  next
    assume "\<exists>u v. c # s = u @ w @ v"
    then obtain u v where e: "c # s = u @ w @ v" by auto
    show "str_in w (c # s)"
    proof (cases u)
      case Nil
      with e have "startswith (c # s) w" by (auto simp: startswith_iff)
      then show ?thesis by simp
    next
      case (Cons d u')
      with e have "s = u' @ w @ v" by simp
      then have "str_in w s" using Cons.IH by auto
      then show ?thesis by simp
    qed
  qed
qed

lemma upper_append: "upper (a @ b) = upper a @ upper b"
  by (simp add: upper_def)

lemma str_in_upper:
  assumes "upper w = w"
  shows "str_in w (upper s) \<longleftrightarrow> occurs_ignoring_case w s"
proof
  assume "str_in w (upper s)"
  then obtain u' v' where "upper s = u' @ w @ v'" by (auto simp: str_in_iff)
  then have "map upper_char s = u' @ (w @ v')" by (simp add: upper_def)
  then have "\<exists>us vs. s = us @ vs \<and> u' = map upper_char us \<and> w @ v' = map upper_char vs"
    by (simp only: map_eq_append_conv)
  then obtain us vs where us: "s = us @ vs" "map upper_char vs = w @ v'"
    by metis
  from us(2) have "\<exists>m v. vs = m @ v \<and> w = map upper_char m \<and> v' = map upper_char v"
    by (simp only: map_eq_append_conv)
  then obtain m v where m: "vs = m @ v" "map upper_char m = w"
    by metis
  from us(1) m have "s = us @ m @ v" "map upper_char m = w" by simp_all
  then show "occurs_ignoring_case w s"
    unfolding occurs_ignoring_case_def using assms by (auto simp: upper_def)
next
  assume "occurs_ignoring_case w s"
  then obtain u m v where "s = u @ m @ v" "upper m = w"
    unfolding occurs_ignoring_case_def using assms by auto
  then have "upper s = upper u @ w @ upper v" by (simp add: upper_append)
  then show "str_in w (upper s)" unfolding str_in_iff by blast
qed

lemma upper_VERIFIED: "upper ''VERIFIED'' = ''VERIFIED''" by code_simp

lemma upper_FALSE: "upper ''FALSE'' = ''FALSE''" by code_simp

text \<open>A match never leaves more than it was given, and a claim pattern consumes at least
  its first character: \<open>findall\<close> never records an empty match for one.\<close>

lemma rmatch_length: "t \<in> set (rmatch r s) \<Longrightarrow> length t \<le> length s"
proof (induction r s arbitrary: t rule: rmatch.induct)
  case (1 cl s)
  then show ?case by (auto split: list.splits if_splits)
next
  case (2 w s)
  then show ?case by (auto split: if_splits)
next
  case (3 r1 r2 s)
  then show ?case by fastforce
next
  case (4 r1 r2 s)
  then show ?case by auto
next
  case (5 r s)
  have "t = s \<or> (\<exists>u. u \<in> set (rmatch r s) \<and> length u < length s \<and> t \<in> set (rmatch (Star r) u))"
    using "5.prems" by (subst (asm) rmatch.simps(5)) auto
  then show ?case
  proof
    assume "t = s"
    then show ?thesis by simp
  next
    assume "\<exists>u. u \<in> set (rmatch r s) \<and> length u < length s \<and> t \<in> set (rmatch (Star r) u)"
    then obtain u where u: "u \<in> set (rmatch r s)" "length u < length s" "t \<in> set (rmatch (Star r) u)"
      by blast
    then have "length t \<le> length u" using "5.IH"(2) by simp
    with u show ?thesis by simp
  qed
qed

lemma rmatch_claim_pattern_shorter:
  assumes "t \<in> set (rmatch (claim_pattern cue) s)"
  shows "length t < length s"
proof -
  let ?rest = "seqs [sentence_body, cue, sentence_body, sentence_end]"
  have "claim_pattern cue = Seq sentence_start ?rest"
    by (simp add: claim_pattern_def)
  with assms obtain u where u: "u \<in> set (rmatch sentence_start s)" "t \<in> set (rmatch ?rest u)"
    by auto
  from u(1) have "length u < length s"
    by (cases s) (auto simp: sentence_start_def split: if_splits)
  moreover from u(2) have "length t \<le> length u" by (rule rmatch_length)
  ultimately show ?thesis by simp
qed

section \<open>Claim extraction\<close>

text \<open>\<open>findall\<close> finds nothing exactly when the pattern matches at no position.\<close>

lemma findall_empty_iff: "findall r s = [] \<longleftrightarrow> (\<forall>t \<in> set (tails s). rmatch r t = [])"
proof (induction s)
  case Nil
  show ?case
    by (subst findall.simps) (simp split: list.splits)
next
  case (Cons c s)
  have "findall r (c # s) = [] \<longleftrightarrow> rmatch r (c # s) = [] \<and> findall r s = []"
    by (subst findall.simps) (simp split: list.splits)
  with Cons.IH show ?case by simp
qed

text \<open>The heuristic extractor cuts its list to three claims.\<close>

lemma extract_claims_at_most_3: "length (extract_claims text) \<le> 3"
  by (simp add: extract_claims_def Let_def)

text \<open>With a key, a reply that parses to a list is returned as it is, whatever its
  length; when the call fails the heuristic result is returned after one warning.\<close>

lemma extract_claims_ai_parsed_list:
  "truthy api_key \<Longrightarrow> json_loads (strip content) = Inr (JArr xs) \<Longrightarrow>
   extract_claims_ai api_key (Inr content) json_loads text = (xs, [])"
  by (simp add: extract_claims_ai_def Let_def)

lemma extract_claims_ai_call_fails:
  "truthy api_key \<Longrightarrow>
   extract_claims_ai api_key (Inl e) json_loads text =
     (map JStr (extract_claims text), [ExtractionFailed e])"
  by (simp add: extract_claims_ai_def)

text \<open>
  C1. At most three claims come out of claim extraction, from \<open>extract_claims\<close> and
  from \<open>extract_claims_ai\<close> once the reply has parsed. The first half is
  \<open>extract_claims_at_most_3\<close>. The second half fails: the parsed list is not cut, and
  a reply that holds four claims gives four claims.
\<close>

theorem extract_claims_ai_four_claims:
  "extract_claims_ai (Some ''sk-key'') (Inr four_claims_reply)
       (\<lambda>s. if s = four_claims_reply then Inr four_claims_parsed else Inl JSONDecodeError)
       ''Cats are mammals. Water is wet. Fire is hot. Ice is cold.''
     = ([JStr ''Cats are mammals'', JStr ''Water is wet'', JStr ''Fire is hot'',
         JStr ''Ice is cold''], [])
   \<and> length (fst (extract_claims_ai (Some ''sk-key'') (Inr four_claims_reply)
       (\<lambda>s. if s = four_claims_reply then Inr four_claims_parsed else Inl JSONDecodeError)
       ''Cats are mammals. Water is wet. Fire is hot. Ice is cold.'')) = 4"
proof -
  have s: "strip four_claims_reply = four_claims_reply"
    unfolding four_claims_reply_def by code_simp
  show ?thesis
    by (simp add: extract_claims_ai_def truthy_def s Let_def four_claims_parsed_def)
qed

text \<open>
  C5. If none of the three patterns has a match in the text (\<open>findall\<close> finds
  nothing: by \<open>findall_empty_iff\<close> no position of the text has a match) and the
  stripped text is longer than 10 characters, \<open>extract_claims\<close> returns exactly one
  claim, the stripped text.
\<close>

theorem extract_claims_whole_input:
  assumes "findall (claim_pattern verb_cue) text = []"
    and "findall (claim_pattern quantity_cue) text = []"
    and "findall (claim_pattern attribution_cue) text = []"
    and "length (strip text) > 10"
  shows "extract_claims text = [strip text]"
  using assms by (simp add: extract_claims_def claim_patterns_def)

theorem extract_claims_whole_input_witness:
  "findall (claim_pattern verb_cue) (CHR 0xA0 # '' the sky looks blue '' @ [CHR 0x85]) = []
   \<and> findall (claim_pattern quantity_cue) (CHR 0xA0 # '' the sky looks blue '' @ [CHR 0x85]) = []
   \<and> findall (claim_pattern attribution_cue)
         (CHR 0xA0 # '' the sky looks blue '' @ [CHR 0x85]) = []
   \<and> length (strip (CHR 0xA0 # '' the sky looks blue '' @ [CHR 0x85])) > 10
   \<and> extract_claims (CHR 0xA0 # '' the sky looks blue '' @ [CHR 0x85]) = [''the sky looks blue'']"
proof -
  let ?t = "CHR 0xA0 # '' the sky looks blue '' @ [CHR 0x85]"
  have h1: "findall (claim_pattern verb_cue) ?t = []" by code_simp
  have h2: "findall (claim_pattern quantity_cue) ?t = []" by code_simp
  have h3: "findall (claim_pattern attribution_cue) ?t = []" by code_simp
  have h4: "length (strip ?t) > 10" by code_simp
  have h5: "strip ?t = ''the sky looks blue''" by code_simp
  from extract_claims_whole_input [OF h1 h2 h3 h4] h1 h2 h3 h4 h5 show ?thesis by simp
qed


section \<open>Static retrieval\<close>

lemma iphone_key_matches:
  "key_matches (lower ''The iPhone 15 Pro has a titanium frame'') ''iphone 15 titanium''"
  by code_simp

text \<open>
  C6. \<open>search_web\<close> on "The iPhone 15 Pro has a titanium frame" returns the two iPhone
  records of the table, in the order of the table.
\<close>

theorem search_web_iphone:
  "search_web ''The iPhone 15 Pro has a titanium frame'' num_results =
     [\<lparr>title = ''Apple iPhone 15 Pro Features Titanium Design'',
       url = ''https://apple.com/newsroom'',
       snippet = ''The iPhone 15 Pro introduces a titanium design that's lighter yet stronger than steel.''\<rparr>,
      \<lparr>title = ''iPhone 15 Pro Review: Titanium Makes a Difference'',
       url = ''https://techcrunch.com'',
       snippet = ''Apple's use of Grade 5 titanium in the iPhone 15 Pro results in the lightest Pro model ever.''\<rparr>]"
  using iphone_key_matches
  by (simp add: search_web_def demo_results_def iphone_results_def Let_def)

text \<open>
  C7. If no word of any key of the table occurs in the lower-cased query,
  \<open>search_web\<close> returns one record: its title is "Search results for: " followed by the
  query, and its snippet says that verification is in progress.
\<close>

theorem search_web_unknown_topic:
  assumes "\<forall>key \<in> set (map fst demo_results). \<forall>word \<in> set (split key).
             \<not> str_in word (lower query)"
  shows "search_web query num_results =
           [\<lparr>title = ''Search results for: '' @ query,
             url = ''https://example.com'',
             snippet = ''Multiple sources found. Verification in progress...''\<rparr>]"
proof -
  have "find (\<lambda>(key, results). key_matches (lower query) key) demo_results = None"
    using assms by (auto simp: find_None_iff key_matches_def list_ex_iff)
  then show ?thesis by (simp add: search_web_def placeholder_def Let_def)
qed

theorem search_web_unknown_topic_witness:
  "\<not> list_ex (\<lambda>key. list_ex (\<lambda>word. str_in word (lower ''Cats are mammals'')) (split key))
       (map fst demo_results)
   \<and> search_web ''Cats are mammals'' 5 =
         [\<lparr>title = ''Search results for: Cats are mammals'',
           url = ''https://example.com'',
           snippet = ''Multiple sources found. Verification in progress...''\<rparr>]"
proof -
  have h: "\<forall>key \<in> set (map fst demo_results). \<forall>word \<in> set (split key).
             \<not> str_in word (lower ''Cats are mammals'')"
    by code_simp
  have h': "\<not> list_ex (\<lambda>key. list_ex (\<lambda>word. str_in word (lower ''Cats are mammals'')) (split key))
              (map fst demo_results)"
    using h unfolding list_ex_iff by blast
  from search_web_unknown_topic [OF h, of 5] h' show ?thesis by simp
qed


section \<open>The heuristic analyzer\<close>

lemma score_cues_present:
  assumes "distinct words"
  shows "score words text = cues_present words text"
proof -
  have "{w \<in> set words. \<exists>u v. text = u @ w @ v} = {w. str_in w text} \<inter> set words"
    by (auto simp: str_in_iff)
  then show ?thesis
    using assms by (simp add: score_def cues_present_def distinct_length_filter)
qed

lemma distinct_cue_words: "distinct positive_words" "distinct negative_words"
  by (simp_all add: positive_words_def negative_words_def)

lemma great_wall_scores:
  "score positive_words (snippets_lower great_wall_results) = 0"
  "score negative_words (snippets_lower great_wall_results) = 1"
  by code_simp+

text \<open>
  C2. Whatever the claim and the sources, the verdict of \<open>analyze_claim_credibility\<close>
  is VERIFIED, DISPUTED or FALSE and its confidence lies between 0.5 and 0.95.
\<close>

theorem analyze_claim_credibility_range:
  "fst (analyze_claim_credibility claim search_results) \<in> {''VERIFIED'', ''DISPUTED'', ''FALSE''}
   \<and> 0.5 \<le> fst (snd (analyze_claim_credibility claim search_results))
   \<and> fst (snd (analyze_claim_credibility claim search_results)) \<le> 0.95"
  by (auto simp: analyze_claim_credibility_def Let_def min_def max_def)

theorem analyze_claim_credibility_range_witness:
  "fst (analyze_claim_credibility ''The Great Wall is visible from space.'' great_wall_results)
     \<in> {''VERIFIED'', ''DISPUTED'', ''FALSE''}
   \<and> 0.5 \<le> fst (snd (analyze_claim_credibility ''The Great Wall is visible from space.''
                          great_wall_results))
   \<and> fst (snd (analyze_claim_credibility ''The Great Wall is visible from space.''
                  great_wall_results)) \<le> 0.95"
  by (rule analyze_claim_credibility_range)

text \<open>
  C3, as stated: when the occurrences of positive cue phrases in the snippets are as many
  as those of negative ones, the result is DISPUTED with confidence 0.5 and the color
  orange. It fails on a snippet that says "myth" twice and "confirmed" and "verified" once
  each: two occurrences against two, and the analyzer, which finds one negative phrase and
  two positive ones, returns VERIFIED.
\<close>

theorem occurrence_tie_counterexample:
  "occurrence_count positive_words (snippets_lower [tied_occurrences]) = 2
   \<and> occurrence_count negative_words (snippets_lower [tied_occurrences]) = 2
   \<and> analyze_claim_credibility ''Bats are blind.'' [tied_occurrences]
       = (''VERIFIED'', 0.8, ''green'')"
proof -
  have a: "occurrence_count positive_words (snippets_lower [tied_occurrences]) = 2"
    by code_simp
  have b: "occurrence_count negative_words (snippets_lower [tied_occurrences]) = 2"
    by code_simp
  have c: "score positive_words (snippets_lower [tied_occurrences]) = 2" by code_simp
  have d: "score negative_words (snippets_lower [tied_occurrences]) = 1" by code_simp
  have "analyze_claim_credibility ''Bats are blind.'' [tied_occurrences]
          = (''VERIFIED'', 0.8, ''green'')"
    unfolding analyze_claim_credibility_def Let_def c d by simp
  with a b show ?thesis by simp
qed

text \<open>
  C3, amended: when as many of the six positive cue phrases as of the six negative cue
  phrases occur at least once in the lower-cased snippets (joined by single spaces), each
  phrase counted once, the result is DISPUTED with confidence 0.5 and the color orange.
\<close>

theorem analyze_claim_credibility_equal_cues:
  assumes "cues_present positive_words (lower (join '' '' (map snippet search_results)))
             = cues_present negative_words (lower (join '' '' (map snippet search_results)))"
  shows "analyze_claim_credibility claim search_results = (''DISPUTED'', 0.5, ''orange'')"
proof -
  have "score positive_words (snippets_lower search_results)
          = score negative_words (snippets_lower search_results)"
    using assms
    by (simp only: score_cues_present [OF distinct_cue_words(1)]
          score_cues_present [OF distinct_cue_words(2)] snippets_lower_def)
  then show ?thesis by (simp add: analyze_claim_credibility_def Let_def)
qed

theorem analyze_claim_credibility_equal_cues_witness:
  "cues_present positive_words (lower (join '' '' (map snippet [mixed_source])))
     = cues_present negative_words (lower (join '' '' (map snippet [mixed_source])))
   \<and> analyze_claim_credibility ''Tea is healthy.'' [mixed_source] = (''DISPUTED'', 0.5, ''orange'')"
proof -
  have p: "score positive_words (snippets_lower [mixed_source]) = 1" by code_simp
  have n: "score negative_words (snippets_lower [mixed_source]) = 1" by code_simp
  have h: "cues_present positive_words (lower (join '' '' (map snippet [mixed_source])))
             = cues_present negative_words (lower (join '' '' (map snippet [mixed_source])))"
    using p n
    by (simp only: score_cues_present [OF distinct_cue_words(1)]
          score_cues_present [OF distinct_cue_words(2)] snippets_lower_def)
  from analyze_claim_credibility_equal_cues [OF h, of "''Tea is healthy.''"] h
  show ?thesis by (rule_tac conjI)
qed

text \<open>
  C4, as stated: the analyzer counts the occurrences of the cue phrases in the lower-cased
  snippets, and its confidence is the clamp of that count. It fails on a snippet that says
  "myth" twice: two occurrences give 0.9, and the analyzer, which adds one for each phrase
  that is found, returns 0.8.
\<close>

theorem occurrence_count_counterexample:
  "claimed_analysis [repeated_myth] = Some (''FALSE'', 0.9)
   \<and> analyze_claim_credibility ''Bats are blind.'' [repeated_myth] = (''FALSE'', 0.8, ''red'')"
proof -
  have a: "occurrence_count positive_words (snippets_lower [repeated_myth]) = 0"
    by code_simp
  have b: "occurrence_count negative_words (snippets_lower [repeated_myth]) = 2"
    by code_simp
  have c: "score positive_words (snippets_lower [repeated_myth]) = 0" by code_simp
  have d: "score negative_words (snippets_lower [repeated_myth]) = 1" by code_simp
  have "claimed_analysis [repeated_myth] = Some (''FALSE'', 0.9)"
    unfolding claimed_analysis_def Let_def a b by (simp add: clamp_def)
  moreover have "analyze_claim_credibility ''Bats are blind.'' [repeated_myth] = (''FALSE'', 0.8, ''red'')"
    unfolding analyze_claim_credibility_def Let_def c d by simp
  ultimately show ?thesis by simp
qed

text \<open>
  C4, amended: the analyzer lower-cases the concatenation of the snippets (joined by
  single spaces) and counts how many of the six positive and how many of the six negative
  cue phrases occur in it at least once. When more negative than positive phrases occur it returns FALSE with
  confidence \<open>clamp(0.7 + 0.1 * negative, 0.7, 0.95)\<close>; when more positive than negative
  ones occur it returns VERIFIED with confidence \<open>clamp(0.6 + 0.1 * positive, 0.6, 0.9)\<close>.
\<close>

theorem analyze_claim_credibility_cues_present:
  "(cues_present negative_words (lower (join '' '' (map snippet search_results)))
      > cues_present positive_words (lower (join '' '' (map snippet search_results)))
    \<longrightarrow> fst (analyze_claim_credibility claim search_results) = ''FALSE''
      \<and> fst (snd (analyze_claim_credibility claim search_results)) =
          clamp (0.7 + 0.1 * real (cues_present negative_words
                   (lower (join '' '' (map snippet search_results))))) 0.7 0.95)
   \<and> (cues_present positive_words (lower (join '' '' (map snippet search_results)))
      > cues_present negative_words (lower (join '' '' (map snippet search_results)))
    \<longrightarrow> fst (analyze_claim_credibility claim search_results) = ''VERIFIED''
      \<and> fst (snd (analyze_claim_credibility claim search_results)) =
          clamp (0.6 + 0.1 * real (cues_present positive_words
                   (lower (join '' '' (map snippet search_results))))) 0.6 0.9)"
  by (simp add: analyze_claim_credibility_def Let_def clamp_def snippets_lower_def
        score_cues_present [OF distinct_cue_words(1)] score_cues_present [OF distinct_cue_words(2)])

theorem analyze_claim_credibility_cues_present_witness:
  "cues_present negative_words (lower (join '' '' (map snippet great_wall_results)))
     > cues_present positive_words (lower (join '' '' (map snippet great_wall_results)))
   \<and> fst (analyze_claim_credibility ''The Great Wall is visible from space.''
            great_wall_results) = ''FALSE''
   \<and> fst (snd (analyze_claim_credibility ''The Great Wall is visible from space.''
                  great_wall_results)) = 0.8"
proof -
  have p: "cues_present positive_words (lower (join '' '' (map snippet great_wall_results))) = 0"
    using great_wall_scores(1)
    by (simp only: score_cues_present [OF distinct_cue_words(1)] snippets_lower_def)
  have n: "cues_present negative_words (lower (join '' '' (map snippet great_wall_results))) = 1"
    using great_wall_scores(2)
    by (simp only: score_cues_present [OF distinct_cue_words(2)] snippets_lower_def)
  from analyze_claim_credibility_cues_present
         [of great_wall_results "''The Great Wall is visible from space.''"]
  show ?thesis unfolding p n by (simp add: clamp_def)
qed

text \<open>
  C10. The result of \<open>analyze_claim_credibility\<close> does not depend on the claim: two
  claims with the same sources get the same verdict, confidence and color.
\<close>

theorem analyze_claim_credibility_ignores_claim:
  "analyze_claim_credibility c1 search_results = analyze_claim_credibility c2 search_results"
  by (simp add: analyze_claim_credibility_def Let_def)

section \<open>The language-model tier\<close>

text \<open>An exception of \<open>json.loads\<close> other than \<open>JSONDecodeError\<close> is not taken by the
  inner handler: the analyzer warns and returns the heuristic tuple of three.\<close>

lemma analyze_claim_with_ai_loads_raises:
  "truthy api_key \<Longrightarrow> json_loads (strip content) = Inl e \<Longrightarrow> e \<noteq> JSONDecodeError \<Longrightarrow>
   analyze_claim_with_ai api_key (Inr content) json_loads float_of_str claim search_results =
     (heuristic_analysis claim search_results, [AnalysisFailed e])"
  by (cases e) (simp_all add: analyze_claim_with_ai_def Let_def)

lemma verdict_from_text_claimed: "verdict_from_text t = claimed_text_verdict t"
  by (simp add: verdict_from_text_def claimed_text_verdict_def
        str_in_upper [OF upper_VERIFIED] str_in_upper [OF upper_FALSE])

text \<open>
  C9, as stated: when the reply does not parse as JSON, the verdict comes from a search of
  the raw reply that ignores case, and the raw reply is the reasoning. It fails on a reply
  with a space at each end: the reasoning returned is the reply without them.
\<close>

theorem raw_reply_counterexample:
  "analyze_claim_with_ai (Some ''sk-key'') (Inr '' The claim is false. '')
       (\<lambda>s. Inl JSONDecodeError) (\<lambda>s. None) ''The sky is green.'' []
     = (Tuple5 (JStr ''FALSE'') (Finite 0.8) ''red'' (JStr ''The claim is false.'') (JStr []),
        [])
   \<and> claimed_text_verdict '' The claim is false. ''
     = Tuple5 (JStr ''FALSE'') (Finite 0.8) ''red'' (JStr '' The claim is false. '') (JStr [])"
proof -
  have s: "strip '' The claim is false. '' = ''The claim is false.''" by code_simp
  have v: "\<not> str_in ''VERIFIED'' (upper ''The claim is false.'')" by code_simp
  have f: "str_in ''FALSE'' (upper ''The claim is false.'')" by code_simp
  have v': "\<not> occurs_ignoring_case ''VERIFIED'' '' The claim is false. ''"
    unfolding str_in_upper [OF upper_VERIFIED, symmetric] by code_simp
  have f': "occurs_ignoring_case ''FALSE'' '' The claim is false. ''"
    unfolding str_in_upper [OF upper_FALSE, symmetric] by code_simp
  have "analyze_claim_with_ai (Some ''sk-key'') (Inr '' The claim is false. '')
          (\<lambda>s. Inl JSONDecodeError) (\<lambda>s. None) ''The sky is green.'' []
        = (Tuple5 (JStr ''FALSE'') (Finite 0.8) ''red'' (JStr ''The claim is false.'') (JStr []),
           [])"
    by (simp add: analyze_claim_with_ai_def truthy_def s Let_def verdict_from_text_def v f)
  moreover have "claimed_text_verdict '' The claim is false. ''
        = Tuple5 (JStr ''FALSE'') (Finite 0.8) ''red'' (JStr '' The claim is false. '') (JStr [])"
    by (simp add: claimed_text_verdict_def v' f')
  ultimately show ?thesis by (rule conjI)
qed

text \<open>
  C9, amended: with a key, when \<open>json.loads\<close> raises \<open>JSONDecodeError\<close> on the reply
  stripped of the white space at its ends, the verdict comes from a search of the stripped
  reply that ignores case: VERIFIED with 0.8 and green if it holds "VERIFIED", else FALSE
  with 0.8 and red if it holds "FALSE", else DISPUTED with 0.6 and orange. In every case
  the stripped reply is the reasoning, the evidence is empty and there is no warning.
\<close>

theorem analyze_claim_with_ai_unparsed:
  assumes "truthy api_key" and "json_loads (strip content) = Inl JSONDecodeError"
  shows "analyze_claim_with_ai api_key (Inr content) json_loads float_of_str claim search_results =
           (if occurs_ignoring_case ''VERIFIED'' (strip content)
            then Tuple5 (JStr ''VERIFIED'') (Finite 0.8) ''green'' (JStr (strip content)) (JStr [])
            else if occurs_ignoring_case ''FALSE'' (strip content)
            then Tuple5 (JStr ''FALSE'') (Finite 0.8) ''red'' (JStr (strip content)) (JStr [])
            else Tuple5 (JStr ''DISPUTED'') (Finite 0.6) ''orange'' (JStr (strip content)) (JStr []),
            [])"
  using assms
  by (simp add: analyze_claim_with_ai_def verdict_from_text_def Let_def
        str_in_upper [OF upper_VERIFIED] str_in_upper [OF upper_FALSE])

theorem analyze_claim_with_ai_unparsed_witness:
  "truthy (Some ''sk-key'')
   \<and> analyze_claim_with_ai (Some ''sk-key'') (Inr ''  This claim is verified by NASA.  '')
         (\<lambda>s. Inl JSONDecodeError) (\<lambda>s. None) ''The sky is green.'' [] =
       (Tuple5 (JStr ''VERIFIED'') (Finite 0.8) ''green''
          (JStr ''This claim is verified by NASA.'') (JStr []), [])"
proof -
  have k: "truthy (Some ''sk-key'')" by (simp add: truthy_def)
  have l: "(\<lambda>s. Inl JSONDecodeError :: exn + json) (strip ''  This claim is verified by NASA.  '')
             = Inl JSONDecodeError" by simp
  have s: "strip ''  This claim is verified by NASA.  '' = ''This claim is verified by NASA.''"
    by code_simp
  have v: "occurs_ignoring_case ''VERIFIED'' ''This claim is verified by NASA.''"
    unfolding str_in_upper [OF upper_VERIFIED, symmetric] by code_simp
  from analyze_claim_with_ai_unparsed [OF k l, where float_of_str = "\<lambda>s. None"
      and claim = "''The sky is green.''" and search_results = "[]"]
  show ?thesis using k v by (simp add: s)
qed

text \<open>When the call raises, \<open>analyze_claim_with_ai\<close> shows one warning and returns the
  tuple of three of the heuristic analyzer, and \<open>fact_check_claim\<close>, which unpacks
  five values, raises.\<close>

lemma analyze_claim_with_ai_call_fails:
  "truthy api_key \<Longrightarrow>
   analyze_claim_with_ai api_key (Inl e) json_loads float_of_str claim search_results =
     (heuristic_analysis claim search_results, [AnalysisFailed e])"
  by (simp add: analyze_claim_with_ai_def)

lemma fact_check_claim_call_fails:
  "truthy api_key \<Longrightarrow>
   fst (fact_check_claim api_key live (Inl e) json_loads float_of_str now claim) = Inl ValueError"
  by (simp add: fact_check_claim_def analyze_claim_with_ai_def heuristic_analysis_def
        split: prod.splits)

text \<open>
  C8. When the call to the language model raises, both fall-backs return the heuristic
  result after one warning (\<open>extract_claims_ai_call_fails\<close>,
  \<open>analyze_claim_with_ai_call_fails\<close>), and the failure is meant to be harmless. For the
  analysis it is not: the orchestrator ends with \<open>ValueError\<close> and produces no result.
\<close>

theorem fact_check_claim_unpack_error:
  "fact_check_claim (Some ''sk-key'') (Inr []) (Inl (Raised ''Rate limit reached''))
       (\<lambda>s. Inl JSONDecodeError) (\<lambda>s. None) ''2024-01-01 12:00:00''
       ''The iPhone 15 Pro has a titanium frame''
     = (Inl ValueError, [AnalysisFailed (Raised ''Rate limit reached'')])"
  by (simp add: fact_check_claim_def search_web_real_def analyze_claim_with_ai_def
        heuristic_analysis_def truthy_def split: prod.splits)

end
